theory Spec2Isabelle
  imports Main "HOL-Library.Sublist" "HOL-Library.AList"
begin

section \<open>The Bintray metadata hook (hooks/bintray\_updater.py)\<close>

text \<open>
  A shallow embedding of the hook that synchronises recipe metadata with a remote
  package record. Everything the Python code reads from its surroundings is an explicit
  argument here: the process environment is a map from variable names to values, the
  result of \<^verbatim>\<open>_get_branch()\<close> is an optional branch name, Python's
  \<^verbatim>\<open>re\<close> on operator-supplied patterns is a library, and the HTTP
  and recipe-inspection collaborators are functions of a \<open>world\<close> record. A leading
  underscore of a Python name is dropped, since an Isabelle name cannot start with one.
\<close>

subsection \<open>Python values\<close>

text \<open>
  The values that occur in the remote record (decoded JSON) and in the update payload.
  JSON numbers are represented by integers only; a number is neither iterable nor equal
  to any string, which is all the hook ever asks of one. Tuples never come out of JSON,
  but a recipe may declare \<^verbatim>\<open>topics\<close> or \<^verbatim>\<open>license\<close> as
  a tuple, and the payload then carries it unchanged.
\<close>

datatype pyval =
    PNone
  | PBool bool
  | PNum int
  | PStr string
  | PList "pyval list"
  | PTuple "pyval list"
  | PDict "(string \<times> pyval) list"

datatype error =
    KeyError string
  | TypeError string
  | ValueError string
  | HTTPError string
  | Exception string
  | ReError string
  | External string

text \<open>
  \<open>ReError m\<close> is the \<^verbatim>\<open>re.error\<close> that \<^verbatim>\<open>re.compile\<close> raises for
  an invalid pattern, with its message. \<open>External\<close> is an exception raised by a
  collaborator (the HTTP library, the recipe inspection). All of them derive from
  Python's \<^verbatim>\<open>Exception\<close>.
\<close>

type_synonym environ = "string \<rightharpoonup> string"

text \<open>\<^verbatim>\<open>os.getenv(key)\<close> and \<^verbatim>\<open>os.getenv(key, default)\<close>: the
  default is used only when the variable is not set at all; a variable set to the empty
  string yields the empty string.\<close>

definition getenv :: "environ \<Rightarrow> string \<Rightarrow> string option" where
  "getenv env key = env key"

definition getenv_default :: "environ \<Rightarrow> string \<Rightarrow> string \<Rightarrow> string" where
  "getenv_default env key dflt = (case env key of Some v \<Rightarrow> v | None \<Rightarrow> dflt)"

text \<open>Truthiness of an optional string: \<^verbatim>\<open>None\<close> and \<^verbatim>\<open>""\<close> are false.\<close>

fun truthy :: "string option \<Rightarrow> bool" where
  "truthy None = False"
| "truthy (Some s) = (s \<noteq> [])"

subsection \<open>Python's \<^verbatim>\<open>re\<close>\<close>

text \<open>
  The hook's own patterns are built from literal characters, \<^verbatim>\<open>.\<close>, a postfix
  \<^verbatim>\<open>*\<close> on a single character or on \<^verbatim>\<open>.\<close>, and \<^verbatim>\<open>$\<close>;
  this fragment is modelled here. \<^verbatim>\<open>re.match\<close>
  anchors the match at the start of the string and lets it end anywhere; \<^verbatim>\<open>.\<close>
  matches every character but a newline; \<^verbatim>\<open>$\<close> matches at the end of the string
  and just before a newline that ends the string.
\<close>

datatype re_atom = Lit char | AnyChar

datatype re_item = One re_atom | Many re_atom | Dollar

definition newline :: char where
  "newline = CHR 0x0A"

definition re_meta :: "char \<Rightarrow> bool" where
  "re_meta c = (c \<in> set (''.^$*+?{}[]|()'' @ [CHR 0x5C]))"

definition re_atom_of :: "char \<Rightarrow> re_atom option" where
  "re_atom_of c = (if c = CHR ''.'' then Some AnyChar
                   else if re_meta c then None else Some (Lit c))"

fun re_compile :: "string \<Rightarrow> re_item list option" where
  "re_compile [] = Some []"
| "re_compile (c # cs) =
     (if c = CHR ''$'' then
        (case cs of
           d # _ \<Rightarrow> if d = CHR ''*'' then None else map_option (Cons Dollar) (re_compile cs)
         | [] \<Rightarrow> map_option (Cons Dollar) (re_compile cs))
      else
        (case re_atom_of c of
           None \<Rightarrow> None
         | Some a \<Rightarrow>
             (case cs of
                d # ds \<Rightarrow>
                  if d = CHR ''*'' then map_option (Cons (Many a)) (re_compile ds)
                  else map_option (Cons (One a)) (re_compile cs)
              | [] \<Rightarrow> map_option (Cons (One a)) (re_compile cs))))"

fun atom_accepts :: "re_atom \<Rightarrow> char \<Rightarrow> bool" where
  "atom_accepts (Lit c) x = (x = c)"
| "atom_accepts AnyChar x = (x \<noteq> newline)"

text \<open>\<open>re_match prog s\<close> is the truth value of \<^verbatim>\<open>prog.match(s)\<close>: some
  prefix of \<open>s\<close> matches the pattern.\<close>

fun re_match :: "re_item list \<Rightarrow> string \<Rightarrow> bool" where
  "re_match [] s = True"
| "re_match (One a # r) [] = False"
| "re_match (One a # r) (x # xs) = (atom_accepts a x \<and> re_match r xs)"
| "re_match (Dollar # r) s = ((s = [] \<or> s = [newline]) \<and> re_match r s)"
| "re_match (Many a # r) [] = re_match r []"
| "re_match (Many a # r) (x # xs) =
     (re_match r (x # xs) \<or> (atom_accepts a x \<and> re_match (Many a # r) xs))"

text \<open>
  An operator may supply any pattern through the environment. What Python's
  \<^verbatim>\<open>re\<close> does with a pattern outside the fragment is a parameter of the model:
  a library maps a pattern either to the message of the \<^verbatim>\<open>re.error\<close> that
  \<^verbatim>\<open>re.compile\<close> raises, or to the truth value of \<^verbatim>\<open>prog.match\<close> on
  each string. \<open>py_compile\<close> is \<^verbatim>\<open>re.compile\<close>: the fragment is compiled
  here, every other pattern by the library.
\<close>

type_synonym re_library = "string \<Rightarrow> string + (string \<Rightarrow> bool)"

definition py_compile :: "re_library \<Rightarrow> string \<Rightarrow> string + (string \<Rightarrow> bool)" where
  "py_compile lib pattern =
     (case re_compile pattern of
        Some prog \<Rightarrow> Inr (re_match prog)
      | None \<Rightarrow> lib pattern)"

subsection \<open>Stability classifier\<close>

text \<open>The loop of \<^verbatim>\<open>_is_stable_branch\<close>: each pattern is compiled before
  the branch is looked at, so a pattern that does not compile raises even for an absent
  branch.\<close>

fun stable_loop :: "re_library \<Rightarrow> string list \<Rightarrow> string option \<Rightarrow> error + bool" where
  "stable_loop lib [] branch = Inr False"
| "stable_loop lib (pattern # patterns) branch =
     (case py_compile lib pattern of
        Inl message \<Rightarrow> Inl (ReError message)
      | Inr prog_match \<Rightarrow>
          if (case branch of None \<Rightarrow> False | Some b \<Rightarrow> b \<noteq> [] \<and> prog_match b)
          then Inr True
          else stable_loop lib patterns branch)"

definition is_stable_branch :: "re_library \<Rightarrow> environ \<Rightarrow> string option \<Rightarrow> error + bool" where
  "is_stable_branch lib env branch =
     (let stable_patterns =
            (case getenv env ''CONAN_STABLE_BRANCH_PATTERN'' of
               None \<Rightarrow> [''master$'', ''release*'', ''stable*'']
             | Some stable_branch_pattern \<Rightarrow>
                 if stable_branch_pattern \<noteq> [] then [stable_branch_pattern]
                 else [''master$'', ''release*'', ''stable*''])
      in stable_loop lib stable_patterns branch)"

subsection \<open>Recipe attributes, remote record, update payload\<close>

text \<open>
  The recipe attributes are what the recipe inspection returns: every attribute is
  present, with \<^verbatim>\<open>None\<close> for one the recipe does not declare. A sequence of
  strings is a Python list or a tuple; \<^verbatim>\<open>license\<close> is a single string or such
  a sequence.
\<close>

datatype pyseq = PyList "string list" | PyTuple "string list"

datatype license_attr = LicStr string | LicSeq pyseq

record recipe_info =
  description :: "string option"
  topics :: "pyseq option"
  license :: "license_attr option"
  url :: "string option"
  homepage :: "string option"

fun seq_items :: "pyseq \<Rightarrow> string list" where
  "seq_items (PyList xs) = xs"
| "seq_items (PyTuple xs) = xs"

fun seq_val :: "pyseq \<Rightarrow> pyval" where
  "seq_val (PyList xs) = PList (map PStr xs)"
| "seq_val (PyTuple xs) = PTuple (map PStr xs)"

text \<open>
  The remote record is a decoded JSON object: a dictionary from field names to values,
  in which a field may be missing. The payload is a Python dictionary built by
  assignments; it is kept as an association list in insertion order (a new key goes to
  the end, as in Python), since the orchestrator prints its keys.
\<close>

type_synonym remote_info = "string \<rightharpoonup> pyval"

type_synonym payload = "(string \<times> pyval) list"

definition setitem :: "string \<Rightarrow> pyval \<Rightarrow> payload \<Rightarrow> payload" where
  "setitem k v d = AList.update k v d"

text \<open>\<^verbatim>\<open>d[k]\<close> on a dictionary raises \<^verbatim>\<open>KeyError\<close> for a missing key.\<close>

definition getitem :: "remote_info \<Rightarrow> string \<Rightarrow> error + pyval" where
  "getitem d k = (case d k of None \<Rightarrow> Inl (KeyError k) | Some v \<Rightarrow> Inr v)"

fun and_then :: "error + 'a \<Rightarrow> ('a \<Rightarrow> error + 'b) \<Rightarrow> error + 'b" where
  "and_then (Inl e) f = Inl e"
| "and_then (Inr x) f = f x"

subsection \<open>Iteration and hashing, as \<^verbatim>\<open>set.intersection\<close> needs them\<close>

text \<open>
  \<^verbatim>\<open>set(licenses).intersection(other)\<close> iterates over \<open>other\<close> and hashes each
  element: a value that is not iterable, or an element that is not hashable, raises
  \<^verbatim>\<open>TypeError\<close>. A string iterates over its characters, a dictionary over its
  keys.
\<close>

definition quoted :: "string \<Rightarrow> string" where
  "quoted s = CHR 0x27 # s @ [CHR 0x27]"

fun py_iter :: "pyval \<Rightarrow> error + pyval list" where
  "py_iter PNone = Inl (TypeError (quoted ''NoneType'' @ '' object is not iterable''))"
| "py_iter (PBool b) = Inl (TypeError (quoted ''bool'' @ '' object is not iterable''))"
| "py_iter (PNum n) = Inl (TypeError (quoted ''int'' @ '' object is not iterable''))"
| "py_iter (PStr s) = Inr (map (\<lambda>c. PStr [c]) s)"
| "py_iter (PList xs) = Inr xs"
| "py_iter (PTuple xs) = Inr xs"
| "py_iter (PDict kvs) = Inr (map (\<lambda>kv. PStr (fst kv)) kvs)"

fun hashable :: "pyval \<Rightarrow> bool" where
  "hashable (PList xs) = False"
| "hashable (PDict kvs) = False"
| "hashable (PTuple xs) = (\<forall>x \<in> set xs. hashable x)"
| "hashable v = True"

text \<open>\<^verbatim>\<open>bool(set(licenses).intersection(other))\<close> for a sequence of strings
  \<open>licenses\<close>. A string equals no value of another type, so membership of \<open>PStr l\<close>
  among the elements is Python's equality.\<close>

definition licenses_overlap :: "string list \<Rightarrow> pyval \<Rightarrow> error + bool" where
  "licenses_overlap licenses other =
     (case py_iter other of
        Inl e \<Rightarrow> Inl e
      | Inr elems \<Rightarrow>
          if \<forall>x \<in> set elems. hashable x
          then Inr (\<exists>l \<in> set licenses. PStr l \<in> set elems)
          else Inl (TypeError ''unhashable type''))"

subsection \<open>String helpers\<close>

text \<open>\<^verbatim>\<open>s.rfind(c)\<close>: the index of the last occurrence, or \<open>-1\<close>.\<close>

fun rfind_from :: "char \<Rightarrow> string \<Rightarrow> nat \<Rightarrow> int \<Rightarrow> int" where
  "rfind_from c [] i best = best"
| "rfind_from c (x # xs) i best = rfind_from c xs (Suc i) (if x = c then int i else best)"

definition rfind :: "char \<Rightarrow> string \<Rightarrow> int" where
  "rfind c s = rfind_from c s 0 (- 1)"

text \<open>\<^verbatim>\<open>s[:k]\<close>: a negative \<open>k\<close> counts from the end.\<close>

definition slice_to :: "string \<Rightarrow> int \<Rightarrow> string" where
  "slice_to s k = (if 0 \<le> k then take (nat k) s else take (length s - nat (- k)) s)"

subsection \<open>The reconciler\<close>

text \<open>
  \<^verbatim>\<open>_update_package_info\<close> is a sequence of seven blocks, each of which may add
  one key to \<^verbatim>\<open>updated_info\<close>. Each block is one function here, taking the
  dictionary built so far; a block that raises ends the whole function. A comparison
  \<^verbatim>\<open>remote_info[k] != v\<close> with \<open>v\<close> a string or a sequence of strings is
  inequality of values: Python's \<^verbatim>\<open>==\<close> identifies values of different types only
  among numbers and booleans, and a list never equals a tuple.
\<close>

definition stage_desc :: "recipe_info \<Rightarrow> remote_info \<Rightarrow> payload \<Rightarrow> error + payload" where
  "stage_desc recipe remote updated_info =
     (case description recipe of
        None \<Rightarrow> Inr updated_info
      | Some d \<Rightarrow>
          if d \<noteq> [] then
            and_then (getitem remote ''desc'') (\<lambda>v.
              if v \<noteq> PStr d then Inr (setitem ''desc'' (PStr d) updated_info)
              else Inr updated_info)
          else Inr updated_info)"

definition stage_labels :: "recipe_info \<Rightarrow> remote_info \<Rightarrow> payload \<Rightarrow> error + payload" where
  "stage_labels recipe remote updated_info =
     (case topics recipe of
        None \<Rightarrow> Inr updated_info
      | Some t \<Rightarrow>
          if seq_items t \<noteq> [] then
            and_then (getitem remote ''labels'') (\<lambda>v.
              if v \<noteq> seq_val t then Inr (setitem ''labels'' (seq_val t) updated_info)
              else Inr updated_info)
          else Inr updated_info)"

text \<open>Truthiness of the \<^verbatim>\<open>license\<close> attribute, and the sequence it is
  normalised to (\<^verbatim>\<open>[licenses]\<close> for a single string).\<close>

fun license_truthy :: "license_attr \<Rightarrow> bool" where
  "license_truthy (LicStr s) = (s \<noteq> [])"
| "license_truthy (LicSeq q) = (seq_items q \<noteq> [])"

fun license_seq :: "license_attr \<Rightarrow> pyseq" where
  "license_seq (LicStr s) = PyList [s]"
| "license_seq (LicSeq q) = q"

definition stage_licenses :: "recipe_info \<Rightarrow> remote_info \<Rightarrow> payload \<Rightarrow> error + payload" where
  "stage_licenses recipe remote updated_info =
     (case license recipe of
        None \<Rightarrow> Inr updated_info
      | Some l \<Rightarrow>
          if license_truthy l then
            (let licenses = license_seq l in
             and_then (getitem remote ''licenses'') (\<lambda>v.
             and_then (licenses_overlap (seq_items licenses) v) (\<lambda>overlap.
               if \<not> overlap then Inr (setitem ''licenses'' (seq_val licenses) updated_info)
               else Inr updated_info)))
          else Inr updated_info)"

definition stage_vcs_url :: "recipe_info \<Rightarrow> payload \<Rightarrow> payload" where
  "stage_vcs_url recipe updated_info =
     (case url recipe of
        None \<Rightarrow> updated_info
      | Some u \<Rightarrow> if u \<noteq> [] then setitem ''vcs_url'' (PStr u) updated_info else updated_info)"

text \<open>The issue tracker URL: derived from the recipe URL, then replaced by the
  environment variable when that is set (even to the empty string).\<close>

definition derived_issue_tracker_url :: "recipe_info \<Rightarrow> string" where
  "derived_issue_tracker_url recipe =
     (case url recipe of
        None \<Rightarrow> []
      | Some u \<Rightarrow>
          if u \<noteq> [] then slice_to u (rfind (CHR ''/'') u) @ ''/community/issues'' else [])"

definition issue_tracker_url :: "environ \<Rightarrow> recipe_info \<Rightarrow> string" where
  "issue_tracker_url env recipe =
     getenv_default env ''BINTRAY_ISSUE_TRACKER_URL'' (derived_issue_tracker_url recipe)"

definition stage_issue_tracker_url ::
  "environ \<Rightarrow> recipe_info \<Rightarrow> remote_info \<Rightarrow> payload \<Rightarrow> error + payload" where
  "stage_issue_tracker_url env recipe remote updated_info =
     (let t = issue_tracker_url env recipe in
      if t \<noteq> [] then
        and_then (getitem remote ''issue_tracker_url'') (\<lambda>v.
          if v \<noteq> PStr t then Inr (setitem ''issue_tracker_url'' (PStr t) updated_info)
          else Inr updated_info)
      else Inr updated_info)"

definition stage_maturity ::
  "re_library \<Rightarrow> environ \<Rightarrow> string option \<Rightarrow> remote_info \<Rightarrow> payload \<Rightarrow> error + payload" where
  "stage_maturity lib env branch remote updated_info =
     and_then (is_stable_branch lib env branch) (\<lambda>stable.
       if stable then
         (if (case remote ''maturity'' of None \<Rightarrow> True | Some v \<Rightarrow> v \<noteq> PStr ''Stable'')
          then Inr (setitem ''maturity'' (PStr ''Stable'') updated_info)
          else Inr updated_info)
       else Inr updated_info)"

definition stage_website_url :: "recipe_info \<Rightarrow> remote_info \<Rightarrow> payload \<Rightarrow> error + payload" where
  "stage_website_url recipe remote updated_info =
     (case homepage recipe of
        None \<Rightarrow> Inr updated_info
      | Some h \<Rightarrow>
          if h \<noteq> [] then
            and_then (getitem remote ''website_url'') (\<lambda>v.
              if v \<noteq> PStr h then Inr (setitem ''website_url'' (PStr h) updated_info)
              else Inr updated_info)
          else Inr updated_info)"

definition update_package_info ::
  "re_library \<Rightarrow> environ \<Rightarrow> string option \<Rightarrow> recipe_info \<Rightarrow> remote_info
     \<Rightarrow> error + payload" where
  "update_package_info lib env branch recipe remote =
     and_then (stage_desc recipe remote []) (\<lambda>u1.
     and_then (stage_labels recipe remote u1) (\<lambda>u2.
     and_then (stage_licenses recipe remote u2) (\<lambda>u3.
     and_then (stage_issue_tracker_url env recipe remote (stage_vcs_url recipe u3)) (\<lambda>u5.
     and_then (stage_maturity lib env branch remote u5) (\<lambda>u6.
     stage_website_url recipe remote u6)))))"

text \<open>The worked example of the specification: a remote record whose optional fields
  are \<^verbatim>\<open>null\<close>, and a recipe that declares every attribute.\<close>

definition example_remote :: remote_info where
  "example_remote =
     [''desc'' \<mapsto> PStr ''old'', ''labels'' \<mapsto> PList [], ''licenses'' \<mapsto> PList [PStr ''MIT''],
      ''vcs_url'' \<mapsto> PNone, ''issue_tracker_url'' \<mapsto> PNone, ''maturity'' \<mapsto> PNone,
      ''website_url'' \<mapsto> PNone]"

definition example_recipe :: recipe_info where
  "example_recipe =
     \<lparr>description = Some ''new'', topics = Some (PyList [''a'', ''b'']),
      license = Some (LicStr ''MIT''), url = Some ''https://x/y'',
      homepage = Some ''https://x''\<rparr>"

text \<open>
  A library for the concrete runs below, which compile a single pattern outside the
  fragment: the alternation \<^verbatim>\<open>main|trunk\<close>, which \<^verbatim>\<open>re.match\<close>
  matches at the start of the string. For any other pattern this library answers with
  the message of an unterminated group; no run asks for one.
\<close>

definition demo_re :: re_library where
  "demo_re pattern =
     (if pattern = ''main|trunk'' then Inr (\<lambda>s. prefix ''main'' s \<or> prefix ''trunk'' s)
      else Inl ''missing ), unterminated subpattern at position 0'')"

text \<open>A recipe that declares nothing.\<close>

definition empty_recipe :: recipe_info where
  "empty_recipe =
     \<lparr>description = None, topics = None, license = None, url = None, homepage = None\<rparr>"

text \<open>
  Every field that the reconciler reads is there: the condition under which none of its
  blocks raises. \<^verbatim>\<open>maturity\<close> and \<^verbatim>\<open>vcs_url\<close> do not occur in it.
\<close>

abbreviation fields_readable ::
  "re_library \<Rightarrow> environ \<Rightarrow> string option \<Rightarrow> recipe_info \<Rightarrow> remote_info \<Rightarrow> bool" where
  "fields_readable lib env branch recipe remote \<equiv>
     (\<forall>d. description recipe = Some d \<and> d \<noteq> [] \<longrightarrow> remote ''desc'' \<noteq> None) \<and>
     (\<forall>t. topics recipe = Some t \<and> seq_items t \<noteq> [] \<longrightarrow> remote ''labels'' \<noteq> None) \<and>
     (\<forall>l. license recipe = Some l \<and> license_truthy l \<longrightarrow>
        (\<exists>v elems. remote ''licenses'' = Some v \<and> py_iter v = Inr elems \<and>
           (\<forall>x \<in> set elems. hashable x))) \<and>
     (issue_tracker_url env recipe \<noteq> [] \<longrightarrow> remote ''issue_tracker_url'' \<noteq> None) \<and>
     (\<exists>s. is_stable_branch lib env branch = Inr s) \<and>
     (\<forall>h. homepage recipe = Some h \<and> h \<noteq> [] \<longrightarrow> remote ''website_url'' \<noteq> None)"

subsection \<open>Remote access\<close>

record conan_remote =
  remote_name :: string
  remote_url :: string

record conan_reference =
  ref_name :: string
  ref_user :: string

text \<open>
  \<^verbatim>\<open>fmt % arg\<close> for a string \<open>arg\<close> (not a tuple), with the conversions
  \<^verbatim>\<open>%s\<close> and \<^verbatim>\<open>%%\<close>, the only ones the source uses. An argument that no
  conversion consumes raises \<^verbatim>\<open>TypeError\<close>.
\<close>

fun prepend :: "string \<Rightarrow> error + string \<Rightarrow> error + string" where
  "prepend s (Inl e) = Inl e"
| "prepend s (Inr t) = Inr (s @ t)"

fun percent_from :: "string \<Rightarrow> string \<Rightarrow> bool \<Rightarrow> error + string" where
  "percent_from [] arg used =
     (if used then Inr []
      else Inl (TypeError ''not all arguments converted during string formatting''))"
| "percent_from (c # cs) arg used =
     (if c = CHR ''%'' then
        (case cs of
           [] \<Rightarrow> Inl (ValueError ''incomplete format'')
         | d # ds \<Rightarrow>
             if d = CHR ''%'' then prepend ''%'' (percent_from ds arg used)
             else if d = CHR ''s'' then
               (if used then Inl (TypeError ''not enough arguments for format string'')
                else prepend arg (percent_from ds arg True))
             else Inl (ValueError ''unsupported format character''))
      else prepend [c] (percent_from cs arg used))"

definition percent_format :: "string \<Rightarrow> string \<Rightarrow> error + string" where
  "percent_format fmt arg = percent_from fmt arg False"

text \<open>
  The URL pattern of \<^verbatim>\<open>_extract_user_repo\<close>,
  \<^verbatim>\<open>https?:\/\/api.bintray.com\/conan\/(.*)\/(.*)\<close>, matched at the start of the
  string: \<^verbatim>\<open>http\<close>, an optional \<^verbatim>\<open>s\<close>, \<^verbatim>\<open>://api\<close>, any
  character, \<^verbatim>\<open>bintray\<close>, any character, \<^verbatim>\<open>com/conan/\<close>; then the two
  greedy groups split what is left of the line at its last slash.
\<close>

fun strip_prefix :: "string \<Rightarrow> string \<Rightarrow> string option" where
  "strip_prefix [] s = Some s"
| "strip_prefix (p # ps) [] = None"
| "strip_prefix (p # ps) (x # xs) = (if p = x then strip_prefix ps xs else None)"

fun strip_any :: "string \<Rightarrow> string option" where
  "strip_any [] = None"
| "strip_any (x # xs) = (if x \<noteq> newline then Some xs else None)"

definition bintray_match :: "string \<Rightarrow> (string \<times> string) option" where
  "bintray_match s =
     Option.bind (strip_prefix ''http'' s) (\<lambda>r0.
     Option.bind (strip_prefix ''://api''
                    (case strip_prefix ''s'' r0 of Some r \<Rightarrow> r | None \<Rightarrow> r0)) (\<lambda>r1.
     Option.bind (strip_any r1) (\<lambda>r2.
     Option.bind (strip_prefix ''bintray'' r2) (\<lambda>r3.
     Option.bind (strip_any r3) (\<lambda>r4.
     Option.bind (strip_prefix ''com/conan/'' r4) (\<lambda>rest.
       let line = takeWhile (\<lambda>c. c \<noteq> newline) rest;
           k = rfind (CHR ''/'') line
       in if k < 0 then None
          else Some (take (nat k) line, drop (Suc (nat k)) line)))))))"

definition extract_user_repo :: "conan_remote \<Rightarrow> error + string \<times> string" where
  "extract_user_repo remote =
     (case bintray_match (remote_url remote) of
        None \<Rightarrow>
          and_then (percent_format ''The remote {} is not a Bintray repository.''
                      (remote_name remote))
            (\<lambda>message. Inl (ValueError message))
      | Some (user, repo) \<Rightarrow> Inr (user, repo))"

definition get_bintray_package_url ::
  "environ \<Rightarrow> conan_remote \<Rightarrow> conan_reference \<Rightarrow> error + string" where
  "get_bintray_package_url env remote reference =
     and_then (extract_user_repo remote) (\<lambda>(user, repo).
       let package = ref_name reference @ ''%3A'' @ ref_user reference;
           api = getenv_default env ''BINTRAY_API_URL'' ''https://api.bintray.com''
       in Inr (api @ ''/packages/'' @ user @ ''/'' @ repo @ ''/'' @ package))"

subsection \<open>Credentials\<close>

text \<open>\<^verbatim>\<open>str.upper\<close> on ASCII letters; other characters are left as they are.\<close>

definition upper_char :: "char \<Rightarrow> char" where
  "upper_char c =
     (let n = (of_char c :: nat) in if 97 \<le> n \<and> n \<le> 122 then char_of (n - 32) else c)"

definition upper :: "string \<Rightarrow> string" where
  "upper s = map upper_char s"

text \<open>The \<^verbatim>\<open>for\<close> loop over the three user name variables: it stops at the first
  non-empty value, and otherwise leaves the last value read.\<close>

fun username_loop :: "environ \<Rightarrow> string list \<Rightarrow> string option \<Rightarrow> string option" where
  "username_loop env [] username = username"
| "username_loop env (var # vars) username =
     (if truthy (getenv env var) then getenv env var
      else username_loop env vars (getenv env var))"

definition get_credentials :: "environ \<Rightarrow> conan_remote \<Rightarrow> error + string \<times> string" where
  "get_credentials env remote =
     (let name = upper (remote_name remote) in
      and_then (percent_format ''BINTRAY_LOGIN_USERNAME_%s'' name) (\<lambda>scoped_user.
        (case username_loop env
                [scoped_user, ''BINTRAY_LOGIN_USERNAME'', ''BINTRAY_USERNAME''] None of
           None \<Rightarrow> Inl (ValueError ''Could not update Bintray info: username not found'')
         | Some username \<Rightarrow>
             if username = [] then
               Inl (ValueError ''Could not update Bintray info: username not found'')
             else
               and_then (percent_format ''BINTRAY_PASSWORD_%s'' name) (\<lambda>scoped_password.
                 (case (case env scoped_password of
                          Some v \<Rightarrow> Some v
                        | None \<Rightarrow> getenv env ''BINTRAY_PASSWORD'') of
                    None \<Rightarrow> Inl (Exception ''Could not update Bintray info: password not found'')
                  | Some password \<Rightarrow>
                      if password = [] then
                        Inl (Exception ''Could not update Bintray info: password not found'')
                      else Inr (username, password))))))"

subsection \<open>HTTP, recipe inspection and the orchestrator\<close>

text \<open>
  The collaborators are functions of the \<open>world\<close>: an HTTP call either raises (a
  connection failure, say) or yields a response; \<^verbatim>\<open>response.json()\<close> either
  raises or yields a JSON object. Every HTTP call made is recorded, in order, so that
  "before any network call" can be stated; every line written to the host's output is
  recorded with its level.
\<close>

record response =
  resp_ok :: bool
  resp_text :: string
  resp_status_code :: nat
  resp_json :: "error + remote_info"

datatype request = Get string | Patch string payload string string

datatype level = Info | Error

record world =
  re_library :: re_library
  environ_of :: environ
  current_branch :: "string option"
  http_get :: "string \<Rightarrow> error + response"
  http_patch :: "string \<Rightarrow> payload \<Rightarrow> string \<Rightarrow> string \<Rightarrow> error + response"
  inspect :: "string \<Rightarrow> error + recipe_info"

text \<open>Decimal rendering of a status code, for \<^verbatim>\<open>str.format\<close>.\<close>

definition digit_char :: "nat \<Rightarrow> char" where
  "digit_char d = ''0123456789'' ! d"

function str_nat :: "nat \<Rightarrow> string" where
  "str_nat n =
     (if n < 10 then [digit_char n] else str_nat (n div 10) @ [digit_char (n mod 10)])"
  by pat_completeness auto
termination
  by (relation "measure id") auto

declare str_nat.simps [simp del]

text \<open>\<^verbatim>\<open>sep.join(xs)\<close>.\<close>

fun join :: "string \<Rightarrow> string list \<Rightarrow> string" where
  "join sep [] = []"
| "join sep [x] = x"
| "join sep (x # y # ys) = x @ sep @ join sep (y # ys)"

text \<open>\<^verbatim>\<open>str(error)\<close>: the message, and for a \<^verbatim>\<open>KeyError\<close> the quoted key.\<close>

fun str_error :: "error \<Rightarrow> string" where
  "str_error (KeyError k) = quoted k"
| "str_error (TypeError m) = m"
| "str_error (ValueError m) = m"
| "str_error (HTTPError m) = m"
| "str_error (Exception m) = m"
| "str_error (ReError m) = m"
| "str_error (External m) = m"

definition get_package_info_from_bintray ::
  "world \<Rightarrow> string \<Rightarrow> request list \<Rightarrow> request list \<times> (error + remote_info)" where
  "get_package_info_from_bintray w package_url net =
     (let net' = net @ [Get package_url] in
      case http_get w package_url of
        Inl e \<Rightarrow> (net', Inl e)
      | Inr response \<Rightarrow>
          if \<not> resp_ok response then
            (net', Inl (HTTPError (''Could not request package info: '' @ resp_text response
                                     @ '' ('' @ str_nat (resp_status_code response) @ '')'')))
          else (net', resp_json response))"

definition get_package_info_from_recipe :: "world \<Rightarrow> string \<Rightarrow> error + recipe_info" where
  "get_package_info_from_recipe w conanfile_path = inspect w conanfile_path"

text \<open>\<^verbatim>\<open>'https' not in package_url\<close> is a substring test.\<close>

fun str_contains :: "string \<Rightarrow> string \<Rightarrow> bool" where
  "str_contains sub [] = (sub = [])"
| "str_contains sub (c # cs) = (prefix sub (c # cs) \<or> str_contains sub cs)"

definition patch_bintray_package_info ::
  "world \<Rightarrow> string \<Rightarrow> payload \<Rightarrow> conan_remote \<Rightarrow> request list
     \<Rightarrow> request list \<times> (error + remote_info)" where
  "patch_bintray_package_info w package_url package_info remote net =
     (if \<not> str_contains ''https'' package_url then
        (net, Inl (ValueError
           ''Bad package URL: Only HTTPS is allowed, Bintray API uses Basic Auth''))
      else
        case get_credentials (environ_of w) remote of
          Inl e \<Rightarrow> (net, Inl e)
        | Inr (username, password) \<Rightarrow>
            (let net' = net @ [Patch package_url package_info username password] in
             case http_patch w package_url package_info username password of
               Inl e \<Rightarrow> (net', Inl e)
             | Inr response \<Rightarrow>
                 if \<not> resp_ok response then
                   (net', Inl (HTTPError (''Could not patch package info: '' @ resp_text response)))
                 else (net', resp_json response)))"

text \<open>
  The body of the \<^verbatim>\<open>try\<close> statement of \<^verbatim>\<open>post_upload_recipe\<close>: the
  output lines written and the requests made up to the point where it ends, and how it
  ends (\<open>Inl\<close> for a raised exception).
\<close>

type_synonym trace = "(level \<times> string) list \<times> request list"

definition try_block ::
  "world \<Rightarrow> string \<Rightarrow> conan_reference \<Rightarrow> conan_remote \<Rightarrow> trace \<times> (error + unit)" where
  "try_block w conanfile_path reference remote =
     (case get_bintray_package_url (environ_of w) remote reference of
        Inl e \<Rightarrow> (([], []), Inl e)
      | Inr package_url \<Rightarrow>
          (let out1 = [(Info, ''Reading package info form Bintray...'')] in
           case get_package_info_from_bintray w package_url [] of
             (net1, Inl e) \<Rightarrow> ((out1, net1), Inl e)
           | (net1, Inr remote_info) \<Rightarrow>
               (let out2 = out1 @ [(Info, ''Inspecting recipe info ...'')] in
                case get_package_info_from_recipe w conanfile_path of
                  Inl e \<Rightarrow> ((out2, net1), Inl e)
                | Inr recipe \<Rightarrow>
                    (case update_package_info (re_library w) (environ_of w)
                            (current_branch w) recipe remote_info of
                       Inl e \<Rightarrow> ((out2, net1), Inl e)
                     | Inr updated_info \<Rightarrow>
                         if updated_info \<noteq> [] then
                           (let out3 = out2 @
                                  [(Info, ''Bintray is outdated. Updating Bintray package info: ''
                                          @ join '' '' (map fst updated_info))] in
                            case patch_bintray_package_info w package_url updated_info
                                   remote net1 of
                              (net2, Inl e) \<Rightarrow> ((out3, net2), Inl e)
                            | (net2, Inr _) \<Rightarrow> ((out3, net2), Inr ()))
                         else
                           ((out2 @ [(Info, ''Bintray package info is up-to-date.'')], net1),
                            Inr ())))))"

text \<open>The \<^verbatim>\<open>except Exception\<close> clause writes one error line and the function
  returns normally: its result is the trace alone.\<close>

definition post_upload_recipe ::
  "world \<Rightarrow> string \<Rightarrow> conan_reference \<Rightarrow> conan_remote \<Rightarrow> trace" where
  "post_upload_recipe w conanfile_path reference remote =
     (case try_block w conanfile_path reference remote of
        ((out, net), Inl e) \<Rightarrow> (out @ [(Error, str_error e)], net)
      | ((out, net), Inr _) \<Rightarrow> (out, net))"

subsection \<open>Two concrete worlds\<close>

text \<open>
  A remote and a reference as Conan passes them, and a world in which the API host has
  been redirected to a plain HTTP endpoint through \<^verbatim>\<open>BINTRAY_API_URL\<close>, the
  credentials are configured, and every HTTP call succeeds. In the second world the
  read request is answered with status 404.
\<close>

definition demo_remote :: conan_remote where
  "demo_remote =
     \<lparr>remote_name = ''bintray'', remote_url = ''https://api.bintray.com/conan/owner/repo''\<rparr>"

definition demo_reference :: conan_reference where
  "demo_reference = \<lparr>ref_name = ''https-client'', ref_user = ''conan''\<rparr>"

definition ok_response :: response where
  "ok_response =
     \<lparr>resp_ok = True, resp_text = [], resp_status_code = 200, resp_json = Inr example_remote\<rparr>"

definition plain_http_world :: world where
  "plain_http_world =
     \<lparr>re_library = demo_re,
      environ_of = [''BINTRAY_API_URL'' \<mapsto> ''http://localhost:8081'',
                     ''BINTRAY_LOGIN_USERNAME'' \<mapsto> ''user'',
                     ''BINTRAY_PASSWORD'' \<mapsto> ''key''],
      current_branch = Some ''develop'',
      http_get = (\<lambda>u. Inr ok_response),
      http_patch = (\<lambda>u body username password. Inr ok_response),
      inspect = (\<lambda>path. Inr example_recipe)\<rparr>"

definition not_found_world :: world where
  "not_found_world =
     plain_http_world
       \<lparr>http_get := (\<lambda>u. Inr \<lparr>resp_ok = False, resp_text = ''Not found'',
                                resp_status_code = 404,
                                resp_json = Inl (ValueError ''No JSON object could be decoded'')\<rparr>)\<rparr>"

section \<open>Properties of the reconciler\<close>

lemmas stage_defs =
  stage_desc_def stage_labels_def stage_licenses_def stage_vcs_url_def
  stage_issue_tracker_url_def stage_maturity_def stage_website_url_def
  getitem_def setitem_def licenses_overlap_def issue_tracker_url_def
  derived_issue_tracker_url_def getenv_default_def rfind_def slice_to_def

lemmas classifier_defs =
  is_stable_branch_def py_compile_def getenv_def re_atom_of_def re_meta_def newline_def

lemma and_then_Inr_iff: "and_then x f = Inr y \<longleftrightarrow> (\<exists>z. x = Inr z \<and> f z = Inr y)"
  by (cases x) auto

lemma map_of_setitem: "map_of (setitem k v d) k' = (if k' = k then Some v else map_of d k')"
  by (simp add: setitem_def update_conv')

lemma update_package_info_Inr:
  "update_package_info lib env b r m = Inr p \<longleftrightarrow>
     (\<exists>u1 u2 u3 u5 u6.
        stage_desc r m [] = Inr u1 \<and> stage_labels r m u1 = Inr u2 \<and>
        stage_licenses r m u2 = Inr u3 \<and>
        stage_issue_tracker_url env r m (stage_vcs_url r u3) = Inr u5 \<and>
        stage_maturity lib env b m u5 = Inr u6 \<and> stage_website_url r m u6 = Inr p)"
  by (simp add: update_package_info_def and_then_Inr_iff)

lemma stage_desc_map_of:
  assumes "stage_desc r m u = Inr u'"
  shows "map_of u' k =
           (if k = ''desc'' \<and> (\<exists>d. description r = Some d \<and> d \<noteq> [] \<and> m ''desc'' \<noteq> Some (PStr d))
            then map_option PStr (description r) else map_of u k)"
  using assms
  by (auto simp: stage_desc_def getitem_def map_of_setitem split: option.splits if_splits)

lemma stage_labels_map_of:
  assumes "stage_labels r m u = Inr u'"
  shows "map_of u' k =
           (if k = ''labels'' \<and> (\<exists>t. topics r = Some t \<and> seq_items t \<noteq> [] \<and> m ''labels'' \<noteq> Some (seq_val t))
            then map_option seq_val (topics r) else map_of u k)"
  using assms
  by (auto simp: stage_labels_def getitem_def map_of_setitem split: option.splits if_splits)

lemma stage_licenses_map_of:
  assumes "stage_licenses r m u = Inr u'"
  shows "map_of u' k =
           (if k = ''licenses'' \<and>
               (\<exists>l v elems. license r = Some l \<and> license_truthy l \<and> m ''licenses'' = Some v \<and>
                  py_iter v = Inr elems \<and> PStr ` set (seq_items (license_seq l)) \<inter> set elems = {})
            then map_option (\<lambda>l. seq_val (license_seq l)) (license r) else map_of u k)"
  using assms
  by (auto simp: stage_licenses_def getitem_def licenses_overlap_def map_of_setitem Let_def
      split: option.splits if_splits sum.splits)

lemma stage_vcs_url_map_of:
  "map_of (stage_vcs_url r u) k =
     (if k = ''vcs_url'' \<and> (\<exists>x. url r = Some x \<and> x \<noteq> [])
      then map_option PStr (url r) else map_of u k)"
  by (auto simp: stage_vcs_url_def map_of_setitem split: option.splits)

lemma stage_issue_tracker_url_map_of:
  assumes "stage_issue_tracker_url env r m u = Inr u'"
  shows "map_of u' k =
           (if k = ''issue_tracker_url'' \<and> issue_tracker_url env r \<noteq> [] \<and>
               m ''issue_tracker_url'' \<noteq> Some (PStr (issue_tracker_url env r))
            then Some (PStr (issue_tracker_url env r)) else map_of u k)"
  using assms
  by (auto simp: stage_issue_tracker_url_def getitem_def map_of_setitem Let_def
      split: option.splits if_splits)

lemma stage_maturity_map_of:
  assumes "stage_maturity lib env b m u = Inr u'"
  shows "map_of u' k =
           (if k = ''maturity'' \<and> is_stable_branch lib env b = Inr True \<and> m ''maturity'' \<noteq> Some (PStr ''Stable'')
            then Some (PStr ''Stable'') else map_of u k)"
  using assms
  by (cases "is_stable_branch lib env b")
    (auto simp: stage_maturity_def map_of_setitem split: option.splits if_splits)

lemma stage_website_url_map_of:
  assumes "stage_website_url r m u = Inr u'"
  shows "map_of u' k =
           (if k = ''website_url'' \<and> (\<exists>h. homepage r = Some h \<and> h \<noteq> [] \<and> m ''website_url'' \<noteq> Some (PStr h))
            then map_option PStr (homepage r) else map_of u k)"
  using assms
  by (auto simp: stage_website_url_def getitem_def map_of_setitem split: option.splits if_splits)

subsection \<open>When the reconciler returns\<close>

lemma stage_desc_returns:
  "(\<exists>u'. stage_desc r m u = Inr u') \<longleftrightarrow>
     (\<forall>d. description r = Some d \<and> d \<noteq> [] \<longrightarrow> m ''desc'' \<noteq> None)"
  by (auto simp: stage_desc_def getitem_def split: option.splits)

lemma stage_labels_returns:
  "(\<exists>u'. stage_labels r m u = Inr u') \<longleftrightarrow>
     (\<forall>t. topics r = Some t \<and> seq_items t \<noteq> [] \<longrightarrow> m ''labels'' \<noteq> None)"
  by (auto simp: stage_labels_def getitem_def split: option.splits)

lemma stage_licenses_returns:
  "(\<exists>u'. stage_licenses r m u = Inr u') \<longleftrightarrow>
     (\<forall>l. license r = Some l \<and> license_truthy l \<longrightarrow>
        (\<exists>v elems. m ''licenses'' = Some v \<and> py_iter v = Inr elems \<and>
           (\<forall>x \<in> set elems. hashable x)))"
  by (auto simp: stage_licenses_def getitem_def licenses_overlap_def Let_def
      split: option.splits sum.splits)

lemma stage_issue_tracker_url_returns:
  "(\<exists>u'. stage_issue_tracker_url env r m u = Inr u') \<longleftrightarrow>
     (issue_tracker_url env r \<noteq> [] \<longrightarrow> m ''issue_tracker_url'' \<noteq> None)"
  by (auto simp: stage_issue_tracker_url_def getitem_def Let_def split: option.splits)

lemma stage_maturity_returns:
  "(\<exists>u'. stage_maturity lib env b m u = Inr u') \<longleftrightarrow> (\<exists>s. is_stable_branch lib env b = Inr s)"
  by (cases "is_stable_branch lib env b") (auto simp: stage_maturity_def)

lemma stage_website_url_returns:
  "(\<exists>u'. stage_website_url r m u = Inr u') \<longleftrightarrow>
     (\<forall>h. homepage r = Some h \<and> h \<noteq> [] \<longrightarrow> m ''website_url'' \<noteq> None)"
  by (auto simp: stage_website_url_def getitem_def split: option.splits)

lemma update_package_info_returns:
  "(\<exists>p. update_package_info lib env branch recipe remote = Inr p) \<longleftrightarrow>
     fields_readable lib env branch recipe remote"
  (is "?L \<longleftrightarrow> ?c1 \<and> ?c2 \<and> ?c3 \<and> ?c5 \<and> ?c6 \<and> ?c7")
proof
  assume ?L
  then obtain u1 u2 u3 u5 u6 p where
    s1: "stage_desc recipe remote [] = Inr u1" and
    s2: "stage_labels recipe remote u1 = Inr u2" and
    s3: "stage_licenses recipe remote u2 = Inr u3" and
    s5: "stage_issue_tracker_url env recipe remote (stage_vcs_url recipe u3) = Inr u5" and
    s6: "stage_maturity lib env branch remote u5 = Inr u6" and
    s7: "stage_website_url recipe remote u6 = Inr p"
    unfolding update_package_info_Inr by blast
  have ?c1 using s1 stage_desc_returns by blast
  moreover have ?c2 using s2 stage_labels_returns by blast
  moreover have ?c3 using s3 stage_licenses_returns by blast
  moreover have ?c5 using s5 stage_issue_tracker_url_returns by blast
  moreover have ?c6 using s6 stage_maturity_returns by blast
  moreover have ?c7 using s7 stage_website_url_returns by blast
  ultimately show "?c1 \<and> ?c2 \<and> ?c3 \<and> ?c5 \<and> ?c6 \<and> ?c7" by blast
next
  assume c: "?c1 \<and> ?c2 \<and> ?c3 \<and> ?c5 \<and> ?c6 \<and> ?c7"
  from c obtain u1 where s1: "stage_desc recipe remote [] = Inr u1"
    using stage_desc_returns [of recipe remote "[]"] by blast
  from c obtain u2 where s2: "stage_labels recipe remote u1 = Inr u2"
    using stage_labels_returns [of recipe remote u1] by blast
  from c obtain u3 where s3: "stage_licenses recipe remote u2 = Inr u3"
    using stage_licenses_returns [of recipe remote u2] by blast
  from c obtain u5 where
    s5: "stage_issue_tracker_url env recipe remote (stage_vcs_url recipe u3) = Inr u5"
    using stage_issue_tracker_url_returns [of env recipe remote "stage_vcs_url recipe u3"]
    by blast
  from c obtain u6 where s6: "stage_maturity lib env branch remote u5 = Inr u6"
    using stage_maturity_returns [of lib env branch remote u5] by blast
  from c obtain p where s7: "stage_website_url recipe remote u6 = Inr p"
    using stage_website_url_returns [of recipe remote u6] by blast
  from s1 s2 s3 s5 s6 s7 show ?L
    unfolding update_package_info_Inr by blast
qed

subsection \<open>How the reconciler raises\<close>

lemma and_then_Inl_iff:
  "and_then x f = Inl e \<longleftrightarrow> x = Inl e \<or> (\<exists>z. x = Inr z \<and> f z = Inl e)"
  by (cases x) auto











subsection \<open>Licenses and the worked example\<close>

text \<open>
  Claim C2. For a recipe with a non-empty license (a single string counts as the
  one-element list) and a remote record whose \<^verbatim>\<open>licenses\<close> field iterates over
  the hashable values \<open>elems\<close>: the license block returns, and it stages the recipe's
  licenses, as a sequence, exactly when they have no element in common with \<open>elems\<close>.
  The same holds of the payload that the whole reconciler returns.
\<close>

theorem licenses_staged_iff_no_overlap:
  assumes "license recipe = Some l" and "license_truthy l"
    and "remote ''licenses'' = Some v" and "py_iter v = Inr elems"
    and "\<forall>x \<in> set elems. hashable x"
  shows "stage_licenses recipe remote u =
           Inr (if PStr ` set (seq_items (license_seq l)) \<inter> set elems \<noteq> {} then u
                else setitem ''licenses'' (seq_val (license_seq l)) u) \<and>
         (\<forall>p. update_package_info lib env branch recipe remote = Inr p \<longrightarrow>
            (PStr ` set (seq_items (license_seq l)) \<inter> set elems \<noteq> {}
               \<longrightarrow> map_of p ''licenses'' = None) \<and>
            (PStr ` set (seq_items (license_seq l)) \<inter> set elems = {}
               \<longrightarrow> map_of p ''licenses'' = Some (seq_val (license_seq l)))) \<and>
         (\<forall>s. l = LicStr s \<longrightarrow> seq_val (license_seq l) = PList [PStr s])"
proof (intro conjI allI impI)
  show "stage_licenses recipe remote u =
           Inr (if PStr ` set (seq_items (license_seq l)) \<inter> set elems \<noteq> {} then u
                else setitem ''licenses'' (seq_val (license_seq l)) u)"
    using assms by (auto simp: stage_licenses_def getitem_def licenses_overlap_def Let_def)
next
  fix p
  assume r: "update_package_info lib env branch recipe remote = Inr p"
  then obtain u1 u2 u3 u5 u6 where
    s1: "stage_desc recipe remote [] = Inr u1" and
    s2: "stage_labels recipe remote u1 = Inr u2" and
    s3: "stage_licenses recipe remote u2 = Inr u3" and
    s5: "stage_issue_tracker_url env recipe remote (stage_vcs_url recipe u3) = Inr u5" and
    s6: "stage_maturity lib env branch remote u5 = Inr u6" and
    s7: "stage_website_url recipe remote u6 = Inr p"
    unfolding update_package_info_Inr by blast
  have before: "map_of u2 ''licenses'' = None"
    by (simp add: stage_labels_map_of [OF s2] stage_desc_map_of [OF s1])
  have after: "map_of p ''licenses'' = map_of u3 ''licenses''"
    by (simp add: stage_website_url_map_of [OF s7] stage_maturity_map_of [OF s6]
        stage_issue_tracker_url_map_of [OF s5] stage_vcs_url_map_of)
  have m: "map_of p ''licenses'' =
          (if PStr ` set (seq_items (license_seq l)) \<inter> set elems = {}
           then Some (seq_val (license_seq l)) else None)"
    using assms(1-4) by (simp add: after stage_licenses_map_of [OF s3] before)
  {
    assume "PStr ` set (seq_items (license_seq l)) \<inter> set elems \<noteq> {}"
    then show "map_of p ''licenses'' = None" by (simp add: m)
  }
  {
    assume "PStr ` set (seq_items (license_seq l)) \<inter> set elems = {}"
    then show "map_of p ''licenses'' = Some (seq_val (license_seq l))" by (simp add: m)
  }
next
  fix s assume "l = LicStr s"
  then show "seq_val (license_seq l) = PList [PStr s]" by simp
qed

text \<open>
  Claim C5. With the example remote record and the example recipe, on a branch that is
  not stable and with no issue tracker override in the environment, the reconciler
  returns exactly the payload with \<^verbatim>\<open>desc\<close>, \<^verbatim>\<open>labels\<close>,
  \<^verbatim>\<open>vcs_url\<close>, \<^verbatim>\<open>issue_tracker_url\<close> and \<^verbatim>\<open>website_url\<close>;
  \<^verbatim>\<open>licenses\<close> is left out because the license sets overlap.
\<close>

theorem end_to_end_example:
  assumes "env ''BINTRAY_ISSUE_TRACKER_URL'' = None"
    and "is_stable_branch lib env branch = Inr False"
  shows "update_package_info lib env branch example_recipe example_remote =
           Inr [(''desc'', PStr ''new''), (''labels'', PList [PStr ''a'', PStr ''b'']),
                (''vcs_url'', PStr ''https://x/y''),
                (''issue_tracker_url'', PStr ''https://x/community/issues''),
                (''website_url'', PStr ''https://x'')]"
  using assms
  by (simp add: update_package_info_def example_recipe_def example_remote_def stage_defs)

theorem end_to_end_example_witness:
  "Map.empty ''BINTRAY_ISSUE_TRACKER_URL'' = (None :: string option) \<and>
   is_stable_branch demo_re Map.empty (Some ''develop'') = Inr False \<and>
   update_package_info demo_re Map.empty (Some ''develop'') example_recipe example_remote =
     Inr [(''desc'', PStr ''new''), (''labels'', PList [PStr ''a'', PStr ''b'']),
          (''vcs_url'', PStr ''https://x/y''),
          (''issue_tracker_url'', PStr ''https://x/community/issues''),
          (''website_url'', PStr ''https://x'')]"
proof -
  have b: "is_stable_branch demo_re Map.empty (Some ''develop'') = Inr False"
    by (simp add: classifier_defs)
  show ?thesis
    using end_to_end_example
            [where env = Map.empty and lib = demo_re and branch = "Some ''develop''", OF _ b] b
    by simp
qed

theorem licenses_staged_iff_no_overlap_witness:
  "update_package_info demo_re Map.empty None (empty_recipe\<lparr>license := Some (LicStr ''MIT'')\<rparr>)
     [''licenses'' \<mapsto> PList [PStr ''Apache-2.0'']] = Inr [(''licenses'', PList [PStr ''MIT''])] \<and>
   update_package_info demo_re Map.empty None (empty_recipe\<lparr>license := Some (LicStr ''MIT'')\<rparr>)
     [''licenses'' \<mapsto> PList [PStr ''BSD'', PStr ''MIT'']] = Inr [] \<and>
   map_of [(''licenses'', PList [PStr ''MIT''])] ''licenses'' = Some (PList [PStr ''MIT'']) \<and>
   map_of ([] :: payload) ''licenses'' = None"
proof -
  let ?r = "empty_recipe\<lparr>license := Some (LicStr ''MIT'')\<rparr>"
  have l: "license ?r = Some (LicStr ''MIT'')" and t: "license_truthy (LicStr ''MIT'')"
    by (simp_all add: empty_recipe_def)
  have a: "update_package_info demo_re Map.empty None ?r [''licenses'' \<mapsto> PList [PStr ''Apache-2.0'']]
             = Inr [(''licenses'', PList [PStr ''MIT''])]"
    by (simp add: update_package_info_def empty_recipe_def stage_defs classifier_defs)
  have b: "update_package_info demo_re Map.empty None ?r [''licenses'' \<mapsto> PList [PStr ''BSD'', PStr ''MIT'']]
             = Inr []"
    by (simp add: update_package_info_def empty_recipe_def stage_defs classifier_defs)
  have v1: "[''licenses'' \<mapsto> PList [PStr ''Apache-2.0'']] ''licenses''
              = Some (PList [PStr ''Apache-2.0''])"
    and i1: "py_iter (PList [PStr ''Apache-2.0'']) = Inr [PStr ''Apache-2.0'']"
    and h1: "\<forall>x \<in> set [PStr ''Apache-2.0'']. hashable x"
    by simp_all
  have v2: "[''licenses'' \<mapsto> PList [PStr ''BSD'', PStr ''MIT'']] ''licenses''
              = Some (PList [PStr ''BSD'', PStr ''MIT''])"
    and i2: "py_iter (PList [PStr ''BSD'', PStr ''MIT'']) = Inr [PStr ''BSD'', PStr ''MIT'']"
    and h2: "\<forall>x \<in> set [PStr ''BSD'', PStr ''MIT'']. hashable x"
    by simp_all
  from licenses_staged_iff_no_overlap
         [where remote = "[''licenses'' \<mapsto> PList [PStr ''Apache-2.0'']]"
            and u = "[]" and env = Map.empty and branch = None, OF l t v1 i1 h1] a
  have "map_of [(''licenses'', PList [PStr ''MIT''])] ''licenses'' = Some (PList [PStr ''MIT''])"
    by simp
  moreover
  from licenses_staged_iff_no_overlap
         [where remote = "[''licenses'' \<mapsto> PList [PStr ''BSD'', PStr ''MIT'']]"
            and u = "[]" and env = Map.empty and branch = None, OF l t v2 i2 h2] b
  have "map_of ([] :: payload) ''licenses'' = None"
    by simp
  ultimately show ?thesis using a b by simp
qed

subsection \<open>Maturity\<close>

lemma maturity_of_payload:
  assumes "update_package_info lib env branch recipe remote = Inr p"
  shows "(map_of p ''maturity'' = Some (PStr ''Stable'')) =
           (is_stable_branch lib env branch = Inr True \<and> remote ''maturity'' \<noteq> Some (PStr ''Stable'')) \<and>
         (map_of p ''maturity'' = None \<or> map_of p ''maturity'' = Some (PStr ''Stable''))"
proof -
  from assms(1) obtain u1 u2 u3 u5 u6 where
    s1: "stage_desc recipe remote [] = Inr u1" and
    s2: "stage_labels recipe remote u1 = Inr u2" and
    s3: "stage_licenses recipe remote u2 = Inr u3" and
    s5: "stage_issue_tracker_url env recipe remote (stage_vcs_url recipe u3) = Inr u5" and
    s6: "stage_maturity lib env branch remote u5 = Inr u6" and
    s7: "stage_website_url recipe remote u6 = Inr p"
    unfolding update_package_info_Inr by blast
  have "map_of u5 ''maturity'' = None"
    by (simp add: stage_issue_tracker_url_map_of [OF s5] stage_vcs_url_map_of
        stage_licenses_map_of [OF s3] stage_labels_map_of [OF s2] stage_desc_map_of [OF s1])
  then have m: "map_of p ''maturity'' =
      (if is_stable_branch lib env branch = Inr True \<and> remote ''maturity'' \<noteq> Some (PStr ''Stable'')
       then Some (PStr ''Stable'') else None)"
    by (simp add: stage_website_url_map_of [OF s7] stage_maturity_map_of [OF s6])
  show ?thesis by (simp add: m)
qed

lemma stage_maturity_result:
  assumes "is_stable_branch lib env branch = Inr s"
  shows "stage_maturity lib env branch remote u =
           Inr (if s \<and> remote ''maturity'' \<noteq> Some (PStr ''Stable'')
                then setitem ''maturity'' (PStr ''Stable'') u else u)"
  using assms by (auto simp: stage_maturity_def split: option.splits)

text \<open>
  Claim C3. Whenever the classifier returns, the maturity block returns, and it stages
  \<^verbatim>\<open>maturity\<close> with the value \<^verbatim>\<open>"Stable"\<close> exactly when the branch is
  classified stable and the remote record's \<^verbatim>\<open>maturity\<close> is missing or different
  from \<^verbatim>\<open>"Stable"\<close>. The payload that the reconciler returns has the key under
  the same condition and never with another value; and the reconciler does return
  whenever every field it reads is there.
\<close>

theorem maturity_staged_iff:
  "(\<forall>s. is_stable_branch lib env branch = Inr s \<longrightarrow>
      stage_maturity lib env branch remote u =
        Inr (if s \<and> remote ''maturity'' \<noteq> Some (PStr ''Stable'')
             then setitem ''maturity'' (PStr ''Stable'') u else u)) \<and>
   (\<forall>p. update_package_info lib env branch recipe remote = Inr p \<longrightarrow>
      (map_of p ''maturity'' = Some (PStr ''Stable'')) =
        (is_stable_branch lib env branch = Inr True \<and>
         remote ''maturity'' \<noteq> Some (PStr ''Stable'')) \<and>
      (map_of p ''maturity'' = None \<or> map_of p ''maturity'' = Some (PStr ''Stable''))) \<and>
   (fields_readable lib env branch recipe remote \<longrightarrow>
      (\<exists>p. update_package_info lib env branch recipe remote = Inr p))"
proof (intro conjI allI impI)
  fix s assume "is_stable_branch lib env branch = Inr s"
  then show "stage_maturity lib env branch remote u =
        Inr (if s \<and> remote ''maturity'' \<noteq> Some (PStr ''Stable'')
             then setitem ''maturity'' (PStr ''Stable'') u else u)"
    by (rule stage_maturity_result)
next
  fix p assume r: "update_package_info lib env branch recipe remote = Inr p"
  from maturity_of_payload [OF r]
  show "(map_of p ''maturity'' = Some (PStr ''Stable'')) =
        (is_stable_branch lib env branch = Inr True \<and>
         remote ''maturity'' \<noteq> Some (PStr ''Stable''))"
    by (rule conjunct1)
  from maturity_of_payload [OF r]
  show "map_of p ''maturity'' = None \<or> map_of p ''maturity'' = Some (PStr ''Stable'')"
    by (rule conjunct2)
next
  assume "fields_readable lib env branch recipe remote"
  then show "\<exists>p. update_package_info lib env branch recipe remote = Inr p"
    by (rule update_package_info_returns [THEN iffD2])
qed

theorem maturity_staged_iff_witness:
  "is_stable_branch demo_re [''CONAN_STABLE_BRANCH_PATTERN'' \<mapsto> ''main|trunk'']
     (Some ''main'') = Inr True \<and>
   stage_maturity demo_re [''CONAN_STABLE_BRANCH_PATTERN'' \<mapsto> ''main|trunk'']
     (Some ''main'') Map.empty [] = Inr [(''maturity'', PStr ''Stable'')] \<and>
   update_package_info demo_re [''CONAN_STABLE_BRANCH_PATTERN'' \<mapsto> ''main|trunk'']
     (Some ''main'') empty_recipe Map.empty = Inr [(''maturity'', PStr ''Stable'')] \<and>
   update_package_info demo_re Map.empty (Some ''master'') empty_recipe
     [''maturity'' \<mapsto> PStr ''Stable''] = Inr [] \<and>
   map_of [(''maturity'', PStr ''Stable'')] ''maturity'' = Some (PStr ''Stable'') \<and>
   map_of ([] :: payload) ''maturity'' \<noteq> Some (PStr ''Stable'') \<and>
   (\<exists>p. update_package_info demo_re [''CONAN_STABLE_BRANCH_PATTERN'' \<mapsto> ''main|trunk'']
          (Some ''main'') empty_recipe Map.empty = Inr p)"
proof -
  let ?env = "[''CONAN_STABLE_BRANCH_PATTERN'' \<mapsto> ''main|trunk'']"
  have s: "is_stable_branch demo_re ?env (Some ''main'') = Inr True"
    by (simp add: classifier_defs demo_re_def)
  have s': "is_stable_branch demo_re Map.empty (Some ''master'') = Inr True"
    by (simp add: classifier_defs)
  have a: "update_package_info demo_re ?env (Some ''main'') empty_recipe Map.empty
             = Inr [(''maturity'', PStr ''Stable'')]"
    by (simp add: update_package_info_def empty_recipe_def stage_defs s)
  have b: "update_package_info demo_re Map.empty (Some ''master'') empty_recipe
             [''maturity'' \<mapsto> PStr ''Stable''] = Inr []"
    by (simp add: update_package_info_def empty_recipe_def stage_defs s')
  note T = maturity_staged_iff [where lib = demo_re and env = ?env and branch = "Some ''main''"
      and recipe = empty_recipe and remote = Map.empty and u = "[]"]
  note T' = maturity_staged_iff [where lib = demo_re and env = Map.empty
      and branch = "Some ''master''" and recipe = empty_recipe
      and remote = "[''maturity'' \<mapsto> PStr ''Stable'']" and u = "[]"]
  from T [THEN conjunct1, rule_format, OF s]
  have 1: "stage_maturity demo_re ?env (Some ''main'') Map.empty []
             = Inr [(''maturity'', PStr ''Stable'')]"
    by (simp add: setitem_def)
  from T [THEN conjunct2, THEN conjunct1, rule_format, OF a] s
  have 2: "map_of [(''maturity'', PStr ''Stable'')] ''maturity'' = Some (PStr ''Stable'')"
    by simp
  from T' [THEN conjunct2, THEN conjunct1, rule_format, OF b]
  have 3: "map_of ([] :: payload) ''maturity'' \<noteq> Some (PStr ''Stable'')"
    by simp
  have "fields_readable demo_re ?env (Some ''main'') empty_recipe Map.empty"
    by (auto simp: s empty_recipe_def issue_tracker_url_def derived_issue_tracker_url_def
        getenv_default_def)
  from T [THEN conjunct2, THEN conjunct2, rule_format, OF this]
  have 4: "\<exists>p. update_package_info demo_re ?env (Some ''main'') empty_recipe Map.empty = Inr p" .
  from s 1 a b 2 3 4 show ?thesis by simp
qed

subsection \<open>The URL\<close>

lemma vcs_url_of_payload:
  assumes "update_package_info lib env branch recipe remote = Inr p"
    and "url recipe = Some u" and "u \<noteq> []"
  shows "map_of p ''vcs_url'' = Some (PStr u)"
proof -
  from assms(1) obtain u3 u5 u6 where
    s5: "stage_issue_tracker_url env recipe remote (stage_vcs_url recipe u3) = Inr u5" and
    s6: "stage_maturity lib env branch remote u5 = Inr u6" and
    s7: "stage_website_url recipe remote u6 = Inr p"
    unfolding update_package_info_Inr by blast
  have "map_of p ''vcs_url'' = map_of (stage_vcs_url recipe u3) ''vcs_url''"
    by (simp add: stage_website_url_map_of [OF s7] stage_maturity_map_of [OF s6]
        stage_issue_tracker_url_map_of [OF s5])
  also have "\<dots> = Some (PStr u)"
    using assms(2,3) by (simp add: stage_vcs_url_map_of)
  finally show ?thesis .
qed

text \<open>
  Claim C4. When the recipe declares a non-empty URL, the URL block stages it under
  \<^verbatim>\<open>vcs_url\<close> without looking at the remote record; every payload the reconciler
  returns holds it; and the reconciler does return such a payload whenever every field
  it reads is there.
\<close>

theorem vcs_url_always_staged:
  assumes "url recipe = Some u" and "u \<noteq> []"
  shows "stage_vcs_url recipe u0 = setitem ''vcs_url'' (PStr u) u0 \<and>
         (\<forall>p. update_package_info lib env branch recipe remote = Inr p \<longrightarrow>
            map_of p ''vcs_url'' = Some (PStr u)) \<and>
         (fields_readable lib env branch recipe remote \<longrightarrow>
            (\<exists>p. update_package_info lib env branch recipe remote = Inr p \<and>
                 map_of p ''vcs_url'' = Some (PStr u)))"
proof (intro conjI allI impI)
  show "stage_vcs_url recipe u0 = setitem ''vcs_url'' (PStr u) u0"
    using assms by (simp add: stage_vcs_url_def)
next
  fix p assume "update_package_info lib env branch recipe remote = Inr p"
  then show "map_of p ''vcs_url'' = Some (PStr u)"
    using assms by (rule vcs_url_of_payload)
next
  assume "fields_readable lib env branch recipe remote"
  then have "\<exists>p. update_package_info lib env branch recipe remote = Inr p"
    by (rule update_package_info_returns [THEN iffD2])
  then obtain p where p: "update_package_info lib env branch recipe remote = Inr p" ..
  from vcs_url_of_payload [OF p assms] p
  show "\<exists>p. update_package_info lib env branch recipe remote = Inr p \<and>
            map_of p ''vcs_url'' = Some (PStr u)"
    by blast
qed

theorem vcs_url_always_staged_witness:
  "update_package_info demo_re Map.empty None (empty_recipe\<lparr>url := Some ''https://x/y''\<rparr>)
     [''vcs_url'' \<mapsto> PStr ''https://x/y'',
      ''issue_tracker_url'' \<mapsto> PStr ''https://x/community/issues'']
     = Inr [(''vcs_url'', PStr ''https://x/y'')] \<and>
   map_of [(''vcs_url'', PStr ''https://x/y'')] ''vcs_url'' = Some (PStr ''https://x/y'') \<and>
   stage_vcs_url (empty_recipe\<lparr>url := Some ''https://x/y''\<rparr>) []
     = [(''vcs_url'', PStr ''https://x/y'')] \<and>
   (\<exists>p. update_package_info demo_re Map.empty None (empty_recipe\<lparr>url := Some ''https://x/y''\<rparr>)
          [''vcs_url'' \<mapsto> PStr ''https://x/y'',
           ''issue_tracker_url'' \<mapsto> PStr ''https://x/community/issues''] = Inr p \<and>
        map_of p ''vcs_url'' = Some (PStr ''https://x/y''))"
proof -
  let ?r = "empty_recipe\<lparr>url := Some ''https://x/y''\<rparr>"
  let ?m = "[''vcs_url'' \<mapsto> PStr ''https://x/y'',
             ''issue_tracker_url'' \<mapsto> PStr ''https://x/community/issues'']"
  have a: "update_package_info demo_re Map.empty None ?r ?m
           = Inr [(''vcs_url'', PStr ''https://x/y'')]"
    by (simp add: update_package_info_def empty_recipe_def stage_defs classifier_defs)
  have u: "url ?r = Some ''https://x/y''" and n: "''https://x/y'' \<noteq> []"
    by (simp_all add: empty_recipe_def)
  have s: "is_stable_branch demo_re Map.empty None = Inr False"
    by (simp add: classifier_defs)
  note T = vcs_url_always_staged [where lib = demo_re and env = Map.empty and branch = None
      and remote = ?m and ?u0.0 = "[]", OF u n]
  from T [THEN conjunct1]
  have 1: "stage_vcs_url ?r [] = [(''vcs_url'', PStr ''https://x/y'')]"
    by (simp add: setitem_def)
  from T [THEN conjunct2, THEN conjunct1, rule_format, OF a]
  have 2: "map_of [(''vcs_url'', PStr ''https://x/y'')] ''vcs_url'' = Some (PStr ''https://x/y'')" .
  have "fields_readable demo_re Map.empty None ?r ?m"
    by (auto simp: s empty_recipe_def issue_tracker_url_def derived_issue_tracker_url_def
        getenv_default_def rfind_def slice_to_def)
  from T [THEN conjunct2, THEN conjunct2, rule_format, OF this]
  have 3: "\<exists>p. update_package_info demo_re Map.empty None ?r ?m = Inr p \<and>
             map_of p ''vcs_url'' = Some (PStr ''https://x/y'')" .
  from a 1 2 3 show ?thesis by simp
qed

subsection \<open>The default patterns\<close>

lemma re_match_literals:
  "re_match (map (\<lambda>c. One (Lit c)) p @ r) s \<longleftrightarrow> (\<exists>t. s = p @ t \<and> re_match r t)"
proof (induction p arbitrary: s)
  case Nil
  then show ?case by simp
next
  case (Cons c p)
  then show ?case by (cases s) auto
qed

lemma re_match_many_last: "re_match [Many a] s"
  by (induction s) simp_all

lemma re_match_dollar_last: "re_match [Dollar] s \<longleftrightarrow> s = [] \<or> s = [newline]"
  by simp

lemma compile_master:
  "py_compile lib ''master$'' = Inr (re_match (map (\<lambda>c. One (Lit c)) ''master'' @ [Dollar]))"
  by (simp add: py_compile_def re_atom_of_def re_meta_def)

lemma compile_release:
  "py_compile lib ''release*'' =
     Inr (re_match (map (\<lambda>c. One (Lit c)) ''releas'' @ [Many (Lit CHR ''e'')]))"
  by (simp add: py_compile_def re_atom_of_def re_meta_def)

lemma compile_stable:
  "py_compile lib ''stable*'' =
     Inr (re_match (map (\<lambda>c. One (Lit c)) ''stabl'' @ [Many (Lit CHR ''e'')]))"
  by (simp add: py_compile_def re_atom_of_def re_meta_def)

lemma match_master:
  "re_match (map (\<lambda>c. One (Lit c)) ''master'' @ [Dollar]) b \<longleftrightarrow>
     b = ''master'' \<or> b = ''master'' @ [newline]"
  unfolding re_match_literals re_match_dollar_last by auto

lemma match_prefix_star:
  "re_match (map (\<lambda>c. One (Lit c)) p @ [Many a]) b \<longleftrightarrow> prefix p b"
  unfolding re_match_literals by (auto simp: re_match_many_last prefix_def)

lemma default_loop:
  "stable_loop lib [''master$'', ''release*'', ''stable*''] branch =
     Inr (case branch of
            None \<Rightarrow> False
          | Some b \<Rightarrow> b = ''master'' \<or> b = ''master'' @ [newline] \<or>
                      prefix ''releas'' b \<or> prefix ''stabl'' b)"
proof (cases branch)
  case None
  then show ?thesis
    by (simp add: compile_master compile_release compile_stable)
next
  case (Some b)
  have ne: "b = ''master'' \<or> b = ''master'' @ [newline] \<or> prefix ''releas'' b \<or> prefix ''stabl'' b
              \<Longrightarrow> b \<noteq> []"
    by auto
  show ?thesis
    using ne
    by (simp only: stable_loop.simps compile_master compile_release compile_stable
        sum.case option.case Some match_master match_prefix_star) auto
qed

text \<open>
  Claim C6, as amended. With no override pattern set (the variable unset or empty), the
  classifier matches the branch from its start against \<^verbatim>\<open>master$\<close>,
  \<^verbatim>\<open>release*\<close> and \<^verbatim>\<open>stable*\<close>: a branch is stable exactly when it is
  \<^verbatim>\<open>master\<close> (a single newline may follow), or starts with \<^verbatim>\<open>releas\<close>, or
  starts with \<^verbatim>\<open>stabl\<close>. An absent branch is not stable.
\<close>

theorem default_stable_branch_iff:
  assumes "env ''CONAN_STABLE_BRANCH_PATTERN'' = None \<or> env ''CONAN_STABLE_BRANCH_PATTERN'' = Some []"
  shows "is_stable_branch lib env branch =
           Inr (case branch of
                  None \<Rightarrow> False
                | Some b \<Rightarrow> b = ''master'' \<or> b = ''master'' @ [newline] \<or>
                            prefix ''releas'' b \<or> prefix ''stabl'' b)"
  using assms
  by (auto simp: is_stable_branch_def getenv_def default_loop simp del: stable_loop.simps)

theorem default_stable_branch_iff_witness:
  "is_stable_branch demo_re Map.empty (Some ''master'') = Inr True \<and>
   is_stable_branch demo_re Map.empty (Some ''release-2.0'') = Inr True \<and>
   is_stable_branch demo_re Map.empty (Some ''stable'') = Inr True \<and>
   is_stable_branch demo_re Map.empty (Some ''releaseX-foo'') = Inr True \<and>
   is_stable_branch demo_re Map.empty (Some ''develop'') = Inr False \<and>
   is_stable_branch demo_re Map.empty None = Inr False \<and>
   is_stable_branch demo_re Map.empty (Some ''master-2.0'') = Inr False"
proof -
  have e: "Map.empty ''CONAN_STABLE_BRANCH_PATTERN'' = (None :: string option) \<or>
           Map.empty ''CONAN_STABLE_BRANCH_PATTERN'' = Some []"
    by simp
  show ?thesis
    using default_stable_branch_iff [where lib = demo_re and branch = "Some ''master''", OF e]
      default_stable_branch_iff [where lib = demo_re and branch = "Some ''release-2.0''", OF e]
      default_stable_branch_iff [where lib = demo_re and branch = "Some ''stable''", OF e]
      default_stable_branch_iff [where lib = demo_re and branch = "Some ''releaseX-foo''", OF e]
      default_stable_branch_iff [where lib = demo_re and branch = "Some ''develop''", OF e]
      default_stable_branch_iff [where lib = demo_re and branch = "None", OF e]
      default_stable_branch_iff [where lib = demo_re and branch = "Some ''master-2.0''", OF e]
    by (simp add: newline_def)
qed

text \<open>
  Claim C6 as stated fails for the first pattern: \<^verbatim>\<open>master$\<close> is anchored at the
  end, so a branch that merely starts with \<^verbatim>\<open>master\<close> is not stable.
\<close>

theorem stable_prefix_counterexample:
  "prefix ''master'' ''master-2.0'' \<and>
   is_stable_branch demo_re Map.empty (Some ''master-2.0'') = Inr False"
  by (simp add: classifier_defs)

subsection \<open>Missing fields\<close>




subsection \<open>Every payload field is justified\<close>









section \<open>Properties of the orchestrator and of remote access\<close>

lemma try_block_info_only:
  "\<forall>l \<in> set (fst (fst (try_block w path reference remote))). fst l = Info"
  by (auto simp: try_block_def Let_def split: sum.splits prod.splits if_splits)

lemma filter_info_only:
  assumes "\<forall>l \<in> set out. fst l = Info"
  shows "filter (\<lambda>l. fst l = Error) out = []"
  using assms by (induction out) auto

text \<open>
  Claim C7. Whatever the collaborators do, \<^verbatim>\<open>post_upload_recipe\<close> returns: its
  result is the trace alone. The output has one error line, the message of the
  exception, exactly when the body raised, and that line comes last; the body raises
  whenever the endpoint resolution, the read request, the recipe inspection, the
  reconciler or the write request raises.
\<close>

theorem post_upload_recipe_swallows:
  "filter (\<lambda>l. fst l = Error) (fst (post_upload_recipe w path reference remote)) =
     (case snd (try_block w path reference remote) of
        Inl e \<Rightarrow> [(Error, str_error e)]
      | Inr u \<Rightarrow> []) \<and>
   (\<forall>e. snd (try_block w path reference remote) = Inl e \<longrightarrow>
      fst (post_upload_recipe w path reference remote) =
        fst (fst (try_block w path reference remote)) @ [(Error, str_error e)]) \<and>
   (\<forall>e. get_bintray_package_url (environ_of w) remote reference = Inl e \<longrightarrow>
      snd (try_block w path reference remote) = Inl e) \<and>
   (\<forall>package_url e.
      get_bintray_package_url (environ_of w) remote reference = Inr package_url \<and>
      snd (get_package_info_from_bintray w package_url []) = Inl e \<longrightarrow>
      snd (try_block w path reference remote) = Inl e) \<and>
   (\<forall>package_url remote_info e.
      get_bintray_package_url (environ_of w) remote reference = Inr package_url \<and>
      snd (get_package_info_from_bintray w package_url []) = Inr remote_info \<and>
      get_package_info_from_recipe w path = Inl e \<longrightarrow>
      snd (try_block w path reference remote) = Inl e) \<and>
   (\<forall>package_url remote_info recipe e.
      get_bintray_package_url (environ_of w) remote reference = Inr package_url \<and>
      snd (get_package_info_from_bintray w package_url []) = Inr remote_info \<and>
      get_package_info_from_recipe w path = Inr recipe \<and>
      update_package_info (re_library w) (environ_of w) (current_branch w) recipe remote_info = Inl e \<longrightarrow>
      snd (try_block w path reference remote) = Inl e) \<and>
   (\<forall>package_url net remote_info recipe updated_info e.
      get_bintray_package_url (environ_of w) remote reference = Inr package_url \<and>
      get_package_info_from_bintray w package_url [] = (net, Inr remote_info) \<and>
      get_package_info_from_recipe w path = Inr recipe \<and>
      update_package_info (re_library w) (environ_of w) (current_branch w) recipe remote_info
        = Inr updated_info \<and> updated_info \<noteq> [] \<and>
      snd (patch_bintray_package_info w package_url updated_info remote net) = Inl e \<longrightarrow>
      snd (try_block w path reference remote) = Inl e)"
proof (intro conjI allI impI)
  obtain out net res where t: "try_block w path reference remote = ((out, net), res)"
    by (metis surj_pair)
  from try_block_info_only [of w path reference remote] t
  have "\<forall>l \<in> set out. fst l = Info" by simp
  then have f: "filter (\<lambda>l. fst l = Error) out = []" by (rule filter_info_only)
  show "filter (\<lambda>l. fst l = Error) (fst (post_upload_recipe w path reference remote)) =
     (case snd (try_block w path reference remote) of
        Inl e \<Rightarrow> [(Error, str_error e)]
      | Inr u \<Rightarrow> [])"
    by (cases res) (simp_all add: post_upload_recipe_def t f)
next
  fix e assume "snd (try_block w path reference remote) = Inl e"
  then show "fst (post_upload_recipe w path reference remote) =
        fst (fst (try_block w path reference remote)) @ [(Error, str_error e)]"
    by (cases "try_block w path reference remote") (auto simp: post_upload_recipe_def)
next
  fix e assume "get_bintray_package_url (environ_of w) remote reference = Inl e"
  then show "snd (try_block w path reference remote) = Inl e"
    by (simp add: try_block_def)
next
  fix package_url e
  assume "get_bintray_package_url (environ_of w) remote reference = Inr package_url \<and>
      snd (get_package_info_from_bintray w package_url []) = Inl e"
  then show "snd (try_block w path reference remote) = Inl e"
    by (cases "get_package_info_from_bintray w package_url []") (auto simp: try_block_def)
next
  fix package_url remote_info e
  assume "get_bintray_package_url (environ_of w) remote reference = Inr package_url \<and>
      snd (get_package_info_from_bintray w package_url []) = Inr remote_info \<and>
      get_package_info_from_recipe w path = Inl e"
  then show "snd (try_block w path reference remote) = Inl e"
    by (cases "get_package_info_from_bintray w package_url []") (auto simp: try_block_def)
next
  fix package_url remote_info recipe e
  assume "get_bintray_package_url (environ_of w) remote reference = Inr package_url \<and>
      snd (get_package_info_from_bintray w package_url []) = Inr remote_info \<and>
      get_package_info_from_recipe w path = Inr recipe \<and>
      update_package_info (re_library w) (environ_of w) (current_branch w) recipe remote_info = Inl e"
  then show "snd (try_block w path reference remote) = Inl e"
    by (cases "get_package_info_from_bintray w package_url []") (auto simp: try_block_def)
next
  fix package_url net remote_info recipe updated_info e
  assume "get_bintray_package_url (environ_of w) remote reference = Inr package_url \<and>
      get_package_info_from_bintray w package_url [] = (net, Inr remote_info) \<and>
      get_package_info_from_recipe w path = Inr recipe \<and>
      update_package_info (re_library w) (environ_of w) (current_branch w) recipe remote_info
        = Inr updated_info \<and> updated_info \<noteq> [] \<and>
      snd (patch_bintray_package_info w package_url updated_info remote net) = Inl e"
  then show "snd (try_block w path reference remote) = Inl e"
    by (cases "patch_bintray_package_info w package_url updated_info remote net")
      (auto simp: try_block_def)
qed

lemmas remote_defs =
  get_bintray_package_url_def extract_user_repo_def bintray_match_def rfind_def newline_def
  getenv_def getenv_default_def percent_format_def

lemmas world_defs =
  plain_http_world_def not_found_world_def demo_remote_def demo_reference_def ok_response_def

lemma demo_package_url:
  "get_bintray_package_url (environ_of plain_http_world) demo_remote demo_reference =
     Inr ''http://localhost:8081/packages/owner/repo/https-client%3Aconan''"
  by (simp add: remote_defs world_defs)

lemma str_nat_404: "str_nat 404 = ''404''"
  by (simp add: str_nat.simps [of 404] str_nat.simps [of 40] str_nat.simps [of 4] digit_char_def)

theorem post_upload_recipe_swallows_witness:
  "post_upload_recipe not_found_world ''conanfile.py'' demo_reference demo_remote =
     ([(Info, ''Reading package info form Bintray...''),
       (Error, ''Could not request package info: Not found (404)'')],
      [Get ''http://localhost:8081/packages/owner/repo/https-client%3Aconan''])"
proof -
  have u: "get_bintray_package_url (environ_of not_found_world) demo_remote demo_reference =
     Inr ''http://localhost:8081/packages/owner/repo/https-client%3Aconan''"
    using demo_package_url by (simp add: not_found_world_def)
  have g: "http_get not_found_world
             ''http://localhost:8081/packages/owner/repo/https-client%3Aconan'' =
           Inr \<lparr>resp_ok = False, resp_text = ''Not found'', resp_status_code = 404,
                 resp_json = Inl (ValueError ''No JSON object could be decoded'')\<rparr>"
    by (simp add: not_found_world_def)
  have t: "try_block not_found_world ''conanfile.py'' demo_reference demo_remote =
     (([(Info, ''Reading package info form Bintray...'')],
       [Get ''http://localhost:8081/packages/owner/repo/https-client%3Aconan'']),
      Inl (HTTPError ''Could not request package info: Not found (404)''))"
    by (simp add: try_block_def u get_package_info_from_bintray_def str_nat_404 g)
  from post_upload_recipe_swallows [of not_found_world "''conanfile.py''" demo_reference demo_remote]
  have "fst (post_upload_recipe not_found_world ''conanfile.py'' demo_reference demo_remote) =
        [(Info, ''Reading package info form Bintray...''),
         (Error, ''Could not request package info: Not found (404)'')]"
    by (simp add: t)
  moreover have "snd (post_upload_recipe not_found_world ''conanfile.py'' demo_reference demo_remote)
      = [Get ''http://localhost:8081/packages/owner/repo/https-client%3Aconan'']"
    by (simp add: post_upload_recipe_def t)
  ultimately show ?thesis by (simp add: prod_eq_iff)
qed

lemma patch_refuses_without_https:
  assumes "\<not> str_contains ''https'' package_url"
  shows "patch_bintray_package_info w package_url package_info remote net =
           (net, Inl (ValueError
              ''Bad package URL: Only HTTPS is allowed, Bintray API uses Basic Auth''))"
  using assms by (simp add: patch_bintray_package_info_def)

lemma demo_credentials:
  "get_credentials (environ_of plain_http_world) demo_remote = Inr (''user'', ''key'')"
  by (simp add: get_credentials_def percent_format_def upper_def upper_char_def getenv_def
      world_defs)

text \<open>
  Claim C8. The write operation is meant to refuse every endpoint that is not HTTPS
  before any network call. The test is \<^verbatim>\<open>'https' not in package_url\<close>, a
  substring test: with the API host redirected to \<^verbatim>\<open>http://localhost:8081\<close> and
  a package named \<^verbatim>\<open>https-client\<close>, the URL does not start with
  \<^verbatim>\<open>https\<close>, the test passes, and the PATCH request with the credentials is sent.
\<close>

theorem https_substring_check_sends_over_http:
  "get_bintray_package_url (environ_of plain_http_world) demo_remote demo_reference =
     Inr ''http://localhost:8081/packages/owner/repo/https-client%3Aconan'' \<and>
   \<not> prefix ''https'' ''http://localhost:8081/packages/owner/repo/https-client%3Aconan'' \<and>
   fst (patch_bintray_package_info plain_http_world
          ''http://localhost:8081/packages/owner/repo/https-client%3Aconan''
          [(''desc'', PStr ''new'')] demo_remote []) =
     [Patch ''http://localhost:8081/packages/owner/repo/https-client%3Aconan''
        [(''desc'', PStr ''new'')] ''user'' ''key'']"
proof -
  have "http_patch plain_http_world = (\<lambda>u body username password. Inr ok_response)"
    by (simp add: plain_http_world_def)
  then show ?thesis
    by (simp add: demo_package_url patch_bintray_package_info_def demo_credentials
        ok_response_def)
qed

text \<open>
  Claim C9. For a remote whose URL does not match the pattern the parser is meant to
  raise a \<^verbatim>\<open>ValueError\<close> that names the remote. The message is built with
  \<^verbatim>\<open>%\<close> from a format string that has only a \<^verbatim>\<open>{}\<close> placeholder, so the
  formatting itself raises \<^verbatim>\<open>TypeError\<close>, with a message that does not name the
  remote. A URL that matches yields the captured pair.
\<close>

theorem extract_user_repo_raises_type_error:
  "bintray_match ''https://example.com/artifactory/api/conan/repo'' = None \<and>
   extract_user_repo
     \<lparr>remote_name = ''artifactory'',
      remote_url = ''https://example.com/artifactory/api/conan/repo''\<rparr> =
     Inl (TypeError ''not all arguments converted during string formatting'') \<and>
   extract_user_repo demo_remote = Inr (''owner'', ''repo'')"
  by (simp add: remote_defs world_defs)

end
